theory Spec2Isabelle
  imports Complex_Main
begin

section \<open>Python values\<close>

text \<open>
  A Python \<^verbatim>\<open>str\<close> is a sequence of Unicode code points; \<^verbatim>\<open>len\<close> and slicing count
  code points. The titles and sentinels of the program are Japanese text, so strings are
  lists of code points and not byte strings.
\<close>

type_synonym pystr = "nat list"

definition ascii :: "string \<Rightarrow> pystr" where
  "ascii s = map of_char s"

text \<open>\<^verbatim>\<open>s.startswith(p)\<close>.\<close>

definition startswith :: "pystr \<Rightarrow> pystr \<Rightarrow> bool" where
  "startswith s p = (take (length p) s = p)"

text \<open>The code points that \<^verbatim>\<open>str.strip()\<close> removes (those with \<^verbatim>\<open>str.isspace\<close>).\<close>

definition isspace :: "nat \<Rightarrow> bool" where
  "isspace c = ((9 \<le> c \<and> c \<le> 13) \<or> (28 \<le> c \<and> c \<le> 32) \<or> c = 133 \<or> c = 160
     \<or> c = 5760 \<or> (8192 \<le> c \<and> c \<le> 8202) \<or> c = 8232 \<or> c = 8233
     \<or> c = 8239 \<or> c = 8287 \<or> c = 12288)"

definition strip :: "pystr \<Rightarrow> pystr" where
  "strip s = rev (dropWhile isspace (rev (dropWhile isspace s)))"

text \<open>Truthiness of an optional list argument (\<^verbatim>\<open>None\<close> and \<^verbatim>\<open>[]\<close> are falsy).\<close>

fun truthy :: "'a list option \<Rightarrow> bool" where
  "truthy None = False"
| "truthy (Some []) = False"
| "truthy (Some (x # xs)) = True"

text \<open>
  Exceptions. The program raises none of its own; \<open>KeyError\<close> is a failed dictionary
  subscript, \<open>AttributeError\<close> a failed attribute access on \<^verbatim>\<open>st.session_state\<close>,
  \<open>Raised\<close> an exception coming out of a collaborator (the store, the vector index, the
  language model), tagged with its class name.
\<close>

datatype exn = KeyError pystr | AttributeError pystr | Raised pystr

section \<open>Constants of the program\<close>

text \<open>config/settings.py\<close>

definition TITLE_MAX_LENGTH :: nat where
  "TITLE_MAX_LENGTH = 15"

definition TOP_K_RESULTS :: nat where
  "TOP_K_RESULTS = 3"

definition RAG_THRESHOLD :: real where
  "RAG_THRESHOLD = 1.2"

text \<open>The literal U+65B0 U+898F U+30C1 U+30E3 U+30C3 U+30C8, title of a new chat.\<close>

definition NEW_CHAT :: pystr where
  "NEW_CHAT = [26032, 35215, 12481, 12515, 12483, 12488]"

text \<open>The literal U+4E0D U+660E U+306A U+30C1 U+30E3 U+30C3 U+30C8, title of an unknown chat.\<close>

definition UNKNOWN_CHAT :: pystr where
  "UNKNOWN_CHAT = [19981, 26126, 12394, 12481, 12515, 12483, 12488]"

text \<open>The literal U+4E0D U+660E, default of a missing source.\<close>

definition UNKNOWN :: pystr where
  "UNKNOWN = [19981, 26126]"

definition USER :: pystr where
  "USER = ascii ''user''"

definition ASSISTANT :: pystr where
  "ASSISTANT = ascii ''assistant''"

section \<open>Data model\<close>

text \<open>An entry of the chat list, \<^verbatim>\<open>{"id": ..., "title": ...}\<close>.\<close>

record chat =
  chat_id :: pystr
  chat_title :: pystr

text \<open>A saved chunk reference, \<^verbatim>\<open>{"chunk_id": ..., "distance": ..., "source": ...}\<close>.\<close>

record chunk =
  chunk_id :: pystr
  chunk_distance :: real
  chunk_source :: pystr

text \<open>
  A message dictionary. The keys \<^verbatim>\<open>is_rag\<close> and \<^verbatim>\<open>chunks\<close> may be absent: \<open>None\<close> is
  an absent key, \<open>Some v\<close> a key holding \<open>v\<close>.
\<close>

record message =
  msg_role :: pystr
  msg_content :: pystr
  msg_is_rag :: "bool option"
  msg_chunks :: "chunk list option"

text \<open>
  A search hit, \<^verbatim>\<open>{"text": ..., "distance": ..., "metadata": {...}}\<close>. The metadata
  values are kept in the form an f-string prints them; a key may be absent. Distances
  are floats, modelled by the reals they denote (comparison is the only operation on
  them).
\<close>

record metadata =
  md_source :: "pystr option"
  md_page :: "pystr option"
  md_chunk_index :: "pystr option"

record search_hit =
  hit_text :: pystr
  hit_distance :: real
  hit_metadata :: metadata

text \<open>LangChain messages, as built by \<^verbatim>\<open>create_human_message\<close> and \<^verbatim>\<open>create_ai_message\<close>.\<close>

datatype lc_message = HumanMessage (lc_content: pystr) | AIMessage (lc_content: pystr)

text \<open>The three chains of LangChainManager differ in their system prompt.\<close>

datatype chain = NormalChain | RagChain | TitleChain

section \<open>State and collaborators\<close>

text \<open>
  \<^verbatim>\<open>st.session_state\<close>: the keys the program uses, each possibly absent.
  \<^verbatim>\<open>current_chat\<close> is a dictionary with the optional keys \<^verbatim>\<open>id\<close> and \<^verbatim>\<open>title\<close>.
\<close>

record current_chat =
  cc_id :: "pystr option"
  cc_title :: "pystr option"

record session_state =
  ss_chat_list :: "chat list option"
  ss_all_chat_histories :: "(pystr \<rightharpoonup> message list) option"
  ss_current_chat :: "current_chat option"

text \<open>The RAGManager instance, reduced to the attribute that changes at run time.\<close>

record rag_manager =
  threshold :: real

text \<open>
  Calls that leave the process: to the Firestore store (DBManager), to the vector
  index (the Chroma collection), to the language model chains and to the identifier
  generator. The log of these calls is what "a remote read was issued" refers to.
\<close>

datatype event =
    GetAllChats
  | GetChatHistory pystr
  | SaveMessage pystr pystr pystr "bool option" "chunk list option"
  | CreateChat "pystr option" pystr
  | UpdateChatTitle pystr pystr
  | CollectionQuery pystr nat
  | Stream chain "lc_message list"
  | Invoke chain "lc_message list"
  | Uuid

text \<open>
  The collaborators are parameters. Each is a function on the state \<open>'e\<close> of the
  outside world, returning a value or an exception together with the new outside state.
  Nothing is assumed about them.
\<close>

record 'e env =
  db_get_all_chats :: "'e \<Rightarrow> (exn + chat list) \<times> 'e"
  db_get_chat_history :: "pystr \<Rightarrow> 'e \<Rightarrow> (exn + message list) \<times> 'e"
  db_save_message ::
    "pystr \<Rightarrow> pystr \<Rightarrow> pystr \<Rightarrow> bool option \<Rightarrow> chunk list option \<Rightarrow> 'e \<Rightarrow> (exn + bool) \<times> 'e"
  db_create_chat :: "pystr option \<Rightarrow> pystr \<Rightarrow> 'e \<Rightarrow> (exn + pystr option) \<times> 'e"
  db_update_chat_title :: "pystr \<Rightarrow> pystr \<Rightarrow> 'e \<Rightarrow> (exn + bool) \<times> 'e"
  collection_query :: "pystr \<Rightarrow> nat \<Rightarrow> 'e \<Rightarrow> (exn + search_hit list) \<times> 'e"
  chain_stream :: "chain \<Rightarrow> lc_message list \<Rightarrow> 'e \<Rightarrow> (exn + pystr list) \<times> 'e"
  chain_invoke :: "chain \<Rightarrow> lc_message list \<Rightarrow> 'e \<Rightarrow> (exn + pystr) \<times> 'e"
  shortuuid :: "'e \<Rightarrow> pystr \<times> 'e"

text \<open>
  The state of one Streamlit process: the attributes of the ChatManager instance
  (\<open>chat_list\<close>, \<open>all_chat_histories\<close>), the optional RAGManager, the session state, the
  outside world and the log of calls made to it.

  In Python the manager's attributes and the session entries of the same name refer to
  the same objects; every method that mutates one assigns it to the session entry
  before it returns or calls out, so at those points the two hold equal values. The
  model keeps both as values and performs the assignments where the source does.
\<close>

record 'e world =
  chat_list :: "chat list"
  all_chat_histories :: "pystr \<rightharpoonup> message list"
  rag_manager :: "rag_manager option"
  session :: session_state
  ext :: 'e
  trace :: "event list"

definition call :: "event \<Rightarrow> ('e \<Rightarrow> 'r \<times> 'e) \<Rightarrow> 'e world \<Rightarrow> 'r \<times> 'e world" where
  "call ev f w = (case f (ext w) of (r, e') \<Rightarrow> (r, w\<lparr>ext := e', trace := trace w @ [ev]\<rparr>))"

section \<open>ChatManager (chat/chat\_manager.py)\<close>

definition load_chat_list_from_db :: "'e env \<Rightarrow> 'e world \<Rightarrow> (exn + chat list) \<times> 'e world" where
  "load_chat_list_from_db env w = call GetAllChats (db_get_all_chats env) w"

text \<open>
  \<^verbatim>\<open>_restore_from_session_state\<close>, the whole of the constructor's work. The attributes
  of the incoming world are those of the discarded instance and are not read.
\<close>

definition restore_from_session_state :: "'e env \<Rightarrow> 'e world \<Rightarrow> (exn + unit) \<times> 'e world" where
  "restore_from_session_state env w =
     (case ss_chat_list (session w) of
        Some cl \<Rightarrow>
          (Inr (), w\<lparr>chat_list := cl,
                     all_chat_histories :=
                       (case ss_all_chat_histories (session w) of
                          Some hs \<Rightarrow> hs | None \<Rightarrow> Map.empty)\<rparr>)
      | None \<Rightarrow>
          (case load_chat_list_from_db env w of
             (Inl x, w') \<Rightarrow> (Inl x, w')
           | (Inr cl, w') \<Rightarrow>
               (Inr (), w'\<lparr>chat_list := cl, all_chat_histories := Map.empty,
                           session := (session w')\<lparr>ss_chat_list := Some cl,
                             ss_all_chat_histories := Some Map.empty\<rparr>\<rparr>)))"

definition get_chat_list :: "'e world \<Rightarrow> chat list" where
  "get_chat_list w = chat_list w"

definition get_current_chat_id :: "'e env \<Rightarrow> chat list \<Rightarrow> 'e world \<Rightarrow> pystr \<times> 'e world" where
  "get_current_chat_id env cl w =
     (case cl of c # _ \<Rightarrow> (chat_id c, w) | [] \<Rightarrow> call Uuid (shortuuid env) w)"

text \<open>The loop of \<^verbatim>\<open>get_chat_title_by_id\<close>: the first entry with the id decides.\<close>

fun title_by_id :: "chat list \<Rightarrow> pystr \<Rightarrow> pystr" where
  "title_by_id [] cid = UNKNOWN_CHAT"
| "title_by_id (c # cs) cid = (if chat_id c = cid then chat_title c else title_by_id cs cid)"

definition get_chat_title_by_id :: "'e world \<Rightarrow> pystr \<Rightarrow> pystr" where
  "get_chat_title_by_id w cid = title_by_id (chat_list w) cid"

definition get_chat_histories ::
  "'e env \<Rightarrow> pystr \<Rightarrow> 'e world \<Rightarrow> (exn + message list) \<times> 'e world" where
  "get_chat_histories env cid w =
     (case all_chat_histories w cid of
        Some h \<Rightarrow> (Inr h, w)
      | None \<Rightarrow>
          (case call (GetChatHistory cid) (db_get_chat_history env cid) w of
             (Inl x, w') \<Rightarrow> (Inl x, w')
           | (Inr h, w') \<Rightarrow>
               (let hs = (all_chat_histories w')(cid \<mapsto> h)
                in (Inr h, w'\<lparr>all_chat_histories := hs,
                     session := (session w')\<lparr>ss_all_chat_histories := Some hs\<rparr>\<rparr>))))"

text \<open>The message dictionary that \<^verbatim>\<open>add_message\<close> builds.\<close>

definition make_message :: "pystr \<Rightarrow> pystr \<Rightarrow> bool \<Rightarrow> chunk list option \<Rightarrow> message" where
  "make_message role content is_rag chunks =
     (let message = \<lparr>msg_role = role, msg_content = content,
                     msg_is_rag = None, msg_chunks = None\<rparr>
      in if role = ASSISTANT
         then (let message = message\<lparr>msg_is_rag := Some is_rag\<rparr>
               in if is_rag \<and> truthy chunks then message\<lparr>msg_chunks := chunks\<rparr> else message)
         else message)"

definition add_message ::
  "'e env \<Rightarrow> pystr \<Rightarrow> pystr \<Rightarrow> pystr \<Rightarrow> bool \<Rightarrow> chunk list option \<Rightarrow> 'e world
     \<Rightarrow> (exn + unit) \<times> 'e world" where
  "add_message env cid role content is_rag chunks w =
     (let message = make_message role content is_rag chunks;
          hs = (case all_chat_histories w cid of
                  None \<Rightarrow> (all_chat_histories w)(cid \<mapsto> [])
                | Some _ \<Rightarrow> all_chat_histories w);
          hs = (case hs cid of
                  None \<Rightarrow> hs
                | Some h \<Rightarrow> hs(cid \<mapsto> h @ [message]));
          w = w\<lparr>all_chat_histories := hs,
                session := (session w)\<lparr>ss_all_chat_histories := Some hs\<rparr>\<rparr>
      in case call (SaveMessage cid role content
                      (if role = ASSISTANT then Some is_rag else None) chunks)
                (db_save_message env cid role content
                      (if role = ASSISTANT then Some is_rag else None) chunks) w of
           (Inl x, w') \<Rightarrow> (Inl x, w')
         | (Inr _, w') \<Rightarrow> (Inr (), w'))"

definition create_new_chat_with_title ::
  "'e env \<Rightarrow> pystr \<Rightarrow> 'e world \<Rightarrow> (exn + chat) \<times> 'e world" where
  "create_new_chat_with_title env title w =
     (case call (CreateChat None title) (db_create_chat env None title) w of
        (Inl x, w') \<Rightarrow> (Inl x, w')
      | (Inr r, w') \<Rightarrow>
          (let (new_id, w') = (case r of
                                 None \<Rightarrow> call Uuid (shortuuid env) w'
                               | Some i \<Rightarrow> (i, w'));
               new_chat = \<lparr>chat_id = new_id, chat_title = title\<rparr>;
               cl = new_chat # chat_list w';
               hs = (all_chat_histories w')(new_id \<mapsto> [])
           in (Inr new_chat,
               w'\<lparr>chat_list := cl, all_chat_histories := hs,
                  session := (session w')\<lparr>ss_chat_list := Some cl,
                    ss_all_chat_histories := Some hs\<rparr>\<rparr>)))"

text \<open>Entries with a role other than user and assistant are passed over.\<close>

fun format_chat_histories :: "message list \<Rightarrow> lc_message list" where
  "format_chat_histories [] = []"
| "format_chat_histories (m # ms) =
     (if msg_role m = USER then HumanMessage (msg_content m) # format_chat_histories ms
      else if msg_role m = ASSISTANT then AIMessage (msg_content m) # format_chat_histories ms
      else format_chat_histories ms)"

text \<open>The loop of \<^verbatim>\<open>update_chat_title\<close>, which leaves at the first entry with the id.\<close>

fun set_title :: "chat list \<Rightarrow> pystr \<Rightarrow> pystr \<Rightarrow> chat list" where
  "set_title [] cid new_title = []"
| "set_title (c # cs) cid new_title =
     (if chat_id c = cid then c\<lparr>chat_title := new_title\<rparr> # cs
      else c # set_title cs cid new_title)"

definition update_chat_title ::
  "'e env \<Rightarrow> pystr \<Rightarrow> pystr \<Rightarrow> 'e world \<Rightarrow> (exn + unit) \<times> 'e world" where
  "update_chat_title env cid new_title w =
     (let cl = set_title (chat_list w) cid new_title;
          w = w\<lparr>chat_list := cl, session := (session w)\<lparr>ss_chat_list := Some cl\<rparr>\<rparr>
      in case call (UpdateChatTitle cid new_title)
                (db_update_chat_title env cid new_title) w of
           (Inl x, w') \<Rightarrow> (Inl x, w')
         | (Inr _, w') \<Rightarrow> (Inr (), w'))"

definition should_generate_title ::
  "'e env \<Rightarrow> pystr \<Rightarrow> 'e world \<Rightarrow> (exn + bool) \<times> 'e world" where
  "should_generate_title env cid w =
     (let current_title = get_chat_title_by_id w cid
      in if \<not> startswith current_title NEW_CHAT then (Inr False, w)
         else (case get_chat_histories env cid w of
                 (Inl x, w') \<Rightarrow> (Inl x, w')
               | (Inr histories, w') \<Rightarrow>
                   (if length histories \<ge> 2 then (Inr True, w') else (Inr False, w'))))"

text \<open>\<^verbatim>\<open>LangChainManager.generate_title\<close> (chat/langchain\_manager.py).\<close>

definition generate_title ::
  "'e env \<Rightarrow> lc_message list \<Rightarrow> 'e world \<Rightarrow> (exn + pystr) \<times> 'e world" where
  "generate_title env messages w =
     (case call (Invoke TitleChain messages) (chain_invoke env TitleChain messages) w of
        (Inl x, w') \<Rightarrow> (Inl x, w')
      | (Inr title, w') \<Rightarrow>
          (let title = strip title
           in (Inr (if length title > TITLE_MAX_LENGTH then take TITLE_MAX_LENGTH title
                    else title), w')))"

definition generate_chat_title ::
  "'e env \<Rightarrow> pystr \<Rightarrow> 'e world \<Rightarrow> (exn + pystr) \<times> 'e world" where
  "generate_chat_title env cid w =
     (case get_chat_histories env cid w of
        (Inl x, w') \<Rightarrow> (Inl x, w')
      | (Inr histories, w') \<Rightarrow>
          (let recent_messages = take 2 histories;
               formatted_messages = format_chat_histories recent_messages
           in generate_title env formatted_messages w'))"

definition refresh_from_db :: "'e env \<Rightarrow> 'e world \<Rightarrow> (exn + unit) \<times> 'e world" where
  "refresh_from_db env w =
     (case load_chat_list_from_db env w of
        (Inl x, w') \<Rightarrow> (Inl x, w')
      | (Inr cl, w') \<Rightarrow>
          (Inr (), w'\<lparr>chat_list := cl, all_chat_histories := Map.empty,
                      session := (session w')\<lparr>ss_chat_list := Some cl,
                        ss_all_chat_histories := Some Map.empty\<rparr>\<rparr>))"

section \<open>RAGManager (infrastructure/rag\_manager.py)\<close>

text \<open>
  Modelled from the spec: \<^verbatim>\<open>ChromaManager.search_with_threshold\<close>, whose module
  (infrastructure/chroma\_manager.py) is not among the sources. The spec's search
  "issues a nearest-neighbor query for k results against the document index;
  usedRetrieval is true iff at least one returned hit has distance <= threshold". The
  spec gives the search no handler, so an exception of the index leaves it as any
  exception leaves a Python function.
\<close>

definition search_with_threshold ::
  "'e env \<Rightarrow> pystr \<Rightarrow> real \<Rightarrow> nat \<Rightarrow> 'e world
     \<Rightarrow> (exn + search_hit list \<times> bool) \<times> 'e world" where
  "search_with_threshold env query thr n_results w =
     (case call (CollectionQuery query n_results) (collection_query env query n_results) w of
        (Inl x, w') \<Rightarrow> (Inl x, w')
      | (Inr hits, w') \<Rightarrow> (Inr (hits, list_ex (\<lambda>h. hit_distance h \<le> thr) hits), w'))"

definition query ::
  "'e env \<Rightarrow> rag_manager \<Rightarrow> pystr \<Rightarrow> 'e world
     \<Rightarrow> (exn + search_hit list \<times> bool) \<times> 'e world" where
  "query env self user_question w =
     search_with_threshold env user_question (threshold self) TOP_K_RESULTS w"

text \<open>\<^verbatim>\<open>str\<close> of a natural number, as an f-string prints it.\<close>

fun str_nat :: "nat \<Rightarrow> pystr" where
  "str_nat n = (if n < 10 then [48 + n] else str_nat (n div 10) @ [48 + n mod 10])"

declare str_nat.simps [simp del]

text \<open>\<^verbatim>\<open>sep.join(parts)\<close>.\<close>

fun join :: "pystr \<Rightarrow> pystr list \<Rightarrow> pystr" where
  "join sep [] = []"
| "join sep [x] = x"
| "join sep (x # y # ys) = x @ sep @ join sep (y # ys)"

text \<open>
  The loop of \<^verbatim>\<open>build_rag_context\<close> over \<^verbatim>\<open>enumerate(search_results, start=1)\<close>.
  The f-string is U+3010 U+53C2 U+7167 U+8CC7 U+6599 \<open>i\<close> U+3011 \<^verbatim>\<open>(\<close> source
  \<^verbatim>\<open> / \<close> U+30DA U+30FC U+30B8 page \<^verbatim>\<open>)\<close>, a newline and the text.
\<close>

fun context_parts :: "nat \<Rightarrow> search_hit list \<Rightarrow> pystr list" where
  "context_parts i [] = []"
| "context_parts i (result # rest) =
     (let source = (case md_source (hit_metadata result) of Some s \<Rightarrow> s | None \<Rightarrow> UNKNOWN);
          page = (case md_page (hit_metadata result) of Some p \<Rightarrow> p | None \<Rightarrow> ascii ''?'');
          text = hit_text result
      in ([12304, 21442, 29031, 36039, 26009] @ str_nat i @ [12305, 40] @ source
           @ [32, 47, 32, 12506, 12540, 12472] @ page @ [41, 10] @ text)
         # context_parts (Suc i) rest)"

definition build_rag_context :: "search_hit list \<Rightarrow> pystr" where
  "build_rag_context search_results =
     (if search_results = [] then []
      else join [10, 10] (context_parts 1 search_results))"

text \<open>
  \<^verbatim>\<open>build_rag_prompt\<close>: a header line (five \<^verbatim>\<open>=\<close>, U+53C2 U+7167 U+8CC7 U+6599, five
  \<^verbatim>\<open>=\<close>), the context, a line of twenty \<^verbatim>\<open>=\<close>, an empty line, and the question after
  U+30E6 U+30FC U+30B6 U+30FC U+306E U+8CEA U+554F and a colon. The lines after the
  first carry the four blanks of the source's indentation.
\<close>

definition build_rag_prompt :: "pystr \<Rightarrow> pystr \<Rightarrow> pystr" where
  "build_rag_prompt user_question context =
     [61, 61, 61, 61, 61, 32, 21442, 29031, 36039, 26009, 32, 61, 61, 61, 61, 61, 10,
      32, 32, 32, 32] @ context
     @ [10, 32, 32, 32, 32] @ replicate 20 61
     @ [10, 10, 32, 32, 32, 32, 12518, 12540, 12470, 12540, 12398, 36074, 21839, 58, 32]
     @ user_question"

text \<open>The dictionary returned by \<^verbatim>\<open>get_rag_response_data\<close>.\<close>

record rag_data =
  use_rag :: bool
  rag_context :: pystr
  rag_prompt :: pystr
  search_results :: "search_hit list"

text \<open>
  \<^verbatim>\<open>get_rag_response_data\<close> has no \<^verbatim>\<open>try\<close>: an exception of \<^verbatim>\<open>query\<close> leaves it.
\<close>

definition get_rag_response_data ::
  "'e env \<Rightarrow> rag_manager \<Rightarrow> pystr \<Rightarrow> 'e world \<Rightarrow> (exn + rag_data) \<times> 'e world" where
  "get_rag_response_data env self user_question w =
     (case query env self user_question w of
        (Inl x, w') \<Rightarrow> (Inl x, w')
      | (Inr (results, use), w') \<Rightarrow>
          (if \<not> use
           then (Inr \<lparr>use_rag = False, rag_context = [], rag_prompt = [],
                      search_results = []\<rparr>, w')
           else (let context = build_rag_context results;
                     prompt = build_rag_prompt user_question context
                 in (Inr \<lparr>use_rag = True, rag_context = context, rag_prompt = prompt,
                          search_results = results\<rparr>, w'))))"

section \<open>GUI (chat/gui.py)\<close>

text \<open>\<^verbatim>\<open>st.session_state.current_chat["id"]\<close> and \<^verbatim>\<open>["title"]\<close>.\<close>

definition current_chat_id :: "'e world \<Rightarrow> exn + pystr" where
  "current_chat_id w =
     (case ss_current_chat (session w) of
        None \<Rightarrow> Inl (AttributeError (ascii ''current_chat''))
      | Some cc \<Rightarrow> (case cc_id cc of None \<Rightarrow> Inl (KeyError (ascii ''id'')) | Some i \<Rightarrow> Inr i))"

definition current_chat_title :: "'e world \<Rightarrow> exn + pystr" where
  "current_chat_title w =
     (case ss_current_chat (session w) of
        None \<Rightarrow> Inl (AttributeError (ascii ''current_chat''))
      | Some cc \<Rightarrow> (case cc_title cc of None \<Rightarrow> Inl (KeyError (ascii ''title'')) | Some t \<Rightarrow> Inr t))"

definition set_current_chat :: "current_chat \<Rightarrow> 'e world \<Rightarrow> 'e world" where
  "set_current_chat cc w = w\<lparr>session := (session w)\<lparr>ss_current_chat := Some cc\<rparr>\<rparr>"

definition initialize_session_state :: "'e env \<Rightarrow> 'e world \<Rightarrow> 'e world" where
  "initialize_session_state env w =
     (let cc = (case ss_current_chat (session w) of
                  None \<Rightarrow> \<lparr>cc_id = None, cc_title = None\<rparr> | Some cc \<Rightarrow> cc);
          w = set_current_chat cc w;
          (current_id, w) =
             (case cc_id cc of
                None \<Rightarrow> get_current_chat_id env (chat_list w) w
              | Some i \<Rightarrow> (i, w));
          cc = cc\<lparr>cc_id := Some current_id\<rparr>;
          w = set_current_chat cc w;
          cc = (case cc_title cc of
                  None \<Rightarrow> cc\<lparr>cc_title := Some (get_chat_title_by_id w current_id)\<rparr>
                | Some _ \<Rightarrow> cc)
      in set_current_chat cc w)"

definition update_current_chat :: "pystr \<Rightarrow> 'e world \<Rightarrow> (exn + unit) \<times> 'e world" where
  "update_current_chat new_id w =
     (case ss_current_chat (session w) of
        None \<Rightarrow> (Inl (AttributeError (ascii ''current_chat'')), w)
      | Some cc \<Rightarrow>
          (Inr (), set_current_chat
                     (cc\<lparr>cc_id := Some new_id,
                         cc_title := Some (get_chat_title_by_id w new_id)\<rparr>) w))"

definition add_user_message :: "'e env \<Rightarrow> pystr \<Rightarrow> 'e world \<Rightarrow> (exn + unit) \<times> 'e world" where
  "add_user_message env user_input w =
     (case current_chat_id w of
        Inl x \<Rightarrow> (Inl x, w)
      | Inr current_id \<Rightarrow>
          (case get_chat_histories env current_id w of
             (Inl x, w') \<Rightarrow> (Inl x, w')
           | (Inr chat_histories, w') \<Rightarrow>
               (if length chat_histories = 0
                then (case current_chat_title w' of
                        Inl x \<Rightarrow> (Inl x, w')
                      | Inr current_title \<Rightarrow>
                          (case call (CreateChat (Some current_id) current_title)
                                  (db_create_chat env (Some current_id) current_title) w' of
                             (Inl x, w'') \<Rightarrow> (Inl x, w'')
                           | (Inr _, w'') \<Rightarrow>
                               add_message env current_id USER user_input False None w''))
                else add_message env current_id USER user_input False None w')))"

definition add_ai_message ::
  "'e env \<Rightarrow> pystr \<Rightarrow> bool \<Rightarrow> chunk list option \<Rightarrow> 'e world \<Rightarrow> (exn + unit) \<times> 'e world" where
  "add_ai_message env ai_response is_rag chunks w =
     (case current_chat_id w of
        Inl x \<Rightarrow> (Inl x, w)
      | Inr i \<Rightarrow> add_message env i ASSISTANT ai_response is_rag chunks w)"

definition auto_generate_title_if_needed :: "'e env \<Rightarrow> 'e world \<Rightarrow> (exn + bool) \<times> 'e world" where
  "auto_generate_title_if_needed env w =
     (case current_chat_id w of
        Inl x \<Rightarrow> (Inl x, w)
      | Inr current_id \<Rightarrow>
          (case should_generate_title env current_id w of
             (Inl x, w') \<Rightarrow> (Inl x, w')
           | (Inr False, w') \<Rightarrow> (Inr False, w')
           | (Inr True, w') \<Rightarrow>
               (case generate_chat_title env current_id w' of
                  (Inl _, w'') \<Rightarrow> (Inr False, w'')
                | (Inr new_title, w'') \<Rightarrow>
                    (case update_chat_title env current_id new_title w'' of
                       (Inl _, w3) \<Rightarrow> (Inr False, w3)
                     | (Inr _, w3) \<Rightarrow>
                         (case ss_current_chat (session w3) of
                            None \<Rightarrow> (Inr False, w3)
                          | Some cc \<Rightarrow>
                              (Inr True,
                               set_current_chat (cc\<lparr>cc_title := Some new_title\<rparr>) w3))))))"

text \<open>
  \<^verbatim>\<open>_create_new_chat\<close>: the new chat exists in memory only; its identifier comes from
  the generator.
\<close>

definition create_new_chat :: "'e env \<Rightarrow> 'e world \<Rightarrow> (exn + unit) \<times> 'e world" where
  "create_new_chat env w =
     (case call Uuid (shortuuid env) w of
        (new_id, w') \<Rightarrow>
          (let new_chat = \<lparr>chat_id = new_id, chat_title = NEW_CHAT\<rparr>;
               cl = new_chat # chat_list w';
               hs = (all_chat_histories w')(new_id \<mapsto> []);
               w' = w'\<lparr>chat_list := cl, all_chat_histories := hs,
                       session := (session w')\<lparr>ss_chat_list := Some cl,
                         ss_all_chat_histories := Some hs\<rparr>\<rparr>
           in update_current_chat new_id w'))"

text \<open>
  The two generation paths. The generator yields fragments; the loop concatenates
  them. An exception of the generator leaves the loop and the method, so the fragments
  seen so far are lost with it.
\<close>

definition generate_rag_response ::
  "'e env \<Rightarrow> pystr \<Rightarrow> pystr \<Rightarrow> 'e world \<Rightarrow> (exn + pystr) \<times> 'e world" where
  "generate_rag_response env current_id prompt w =
     (case get_chat_histories env current_id w of
        (Inl x, w') \<Rightarrow> (Inl x, w')
      | (Inr chat_histories, w') \<Rightarrow>
          (let formatted_messages =
                 format_chat_histories (butlast chat_histories) @ [HumanMessage prompt]
           in case call (Stream RagChain formatted_messages)
                     (chain_stream env RagChain formatted_messages) w' of
                (Inl x, w'') \<Rightarrow> (Inl x, w'')
              | (Inr fragments, w'') \<Rightarrow> (Inr (concat fragments), w'')))"

definition generate_normal_response ::
  "'e env \<Rightarrow> pystr \<Rightarrow> 'e world \<Rightarrow> (exn + pystr) \<times> 'e world" where
  "generate_normal_response env current_id w =
     (case get_chat_histories env current_id w of
        (Inl x, w') \<Rightarrow> (Inl x, w')
      | (Inr chat_histories, w') \<Rightarrow>
          (let formatted_messages = format_chat_histories chat_histories
           in case call (Stream NormalChain formatted_messages)
                     (chain_stream env NormalChain formatted_messages) w' of
                (Inl x, w'') \<Rightarrow> (Inl x, w'')
              | (Inr fragments, w'') \<Rightarrow> (Inr (concat fragments), w'')))"

definition format_chunks_for_save :: "search_hit list \<Rightarrow> chunk list" where
  "format_chunks_for_save results =
     map (\<lambda>doc.
           \<lparr>chunk_id =
              (case md_source (hit_metadata doc) of Some s \<Rightarrow> s | None \<Rightarrow> []) @ ascii ''_''
              @ (case md_page (hit_metadata doc) of Some p \<Rightarrow> p | None \<Rightarrow> []) @ ascii ''_''
              @ (case md_chunk_index (hit_metadata doc) of Some c \<Rightarrow> c | None \<Rightarrow> []),
            chunk_distance = hit_distance doc,
            chunk_source =
              (case md_source (hit_metadata doc) of Some s \<Rightarrow> s | None \<Rightarrow> UNKNOWN)\<rparr>)
         results"

text \<open>
  \<^verbatim>\<open>_process_ai_response\<close>, without the rendering. An empty string and an empty list
  are falsy. The call of \<^verbatim>\<open>get_rag_response_data\<close> is not inside a \<^verbatim>\<open>try\<close>: its
  exception leaves the method before anything is generated or stored.
\<close>

definition process_ai_response :: "'e env \<Rightarrow> pystr \<Rightarrow> 'e world \<Rightarrow> (exn + unit) \<times> 'e world" where
  "process_ai_response env user_input w =
     (case current_chat_id w of
        Inl x \<Rightarrow> (Inl x, w)
      | Inr current_id \<Rightarrow>
          (case (case rag_manager w of
                   None \<Rightarrow> (Inr \<lparr>use_rag = False, rag_context = [], rag_prompt = [],
                                  search_results = []\<rparr>, w)
                 | Some rm \<Rightarrow> get_rag_response_data env rm user_input w) of
             (Inl x, w) \<Rightarrow> (Inl x, w)
           | (Inr data, w) \<Rightarrow>
               (case (if use_rag data \<and> rag_context data \<noteq> []
                      then generate_rag_response env current_id (rag_prompt data) w
                      else generate_normal_response env current_id w) of
                  (Inl x, w') \<Rightarrow> (Inl x, w')
                | (Inr full_response, w') \<Rightarrow>
                    (let chunks_to_save =
                           (if use_rag data \<and> search_results data \<noteq> []
                            then Some (format_chunks_for_save (search_results data))
                            else None)
                     in add_ai_message env full_response (use_rag data) chunks_to_save w'))))"

text \<open>\<^verbatim>\<open>_render_chat_input\<close>: one turn. An empty input is no turn.\<close>

definition render_chat_input :: "'e env \<Rightarrow> pystr \<Rightarrow> 'e world \<Rightarrow> (exn + unit) \<times> 'e world" where
  "render_chat_input env user_input w =
     (if user_input = [] then (Inr (), w)
      else (case add_user_message env user_input w of
              (Inl x, w') \<Rightarrow> (Inl x, w')
            | (Inr _, w') \<Rightarrow>
                (case process_ai_response env user_input w' of
                   (Inl x, w'') \<Rightarrow> (Inl x, w'')
                 | (Inr _, w'') \<Rightarrow>
                     (case auto_generate_title_if_needed env w'' of
                        (Inl x, w3) \<Rightarrow> (Inl x, w3)
                      | (Inr _, w3) \<Rightarrow> (Inr (), w3)))))"

text \<open>
  The start of a script run (main.py): the ChatManager is constructed, then the GUI,
  whose constructor initialises the session state.
\<close>

definition startup :: "'e env \<Rightarrow> 'e world \<Rightarrow> (exn + unit) \<times> 'e world" where
  "startup env w =
     (case restore_from_session_state env w of
        (Inl x, w') \<Rightarrow> (Inl x, w')
      | (Inr _, w') \<Rightarrow> (Inr (), initialize_session_state env w'))"

section \<open>Concrete inputs\<close>

text \<open>
  An environment with fixed answers and two worlds, for evaluating the program at
  concrete inputs. The outside state counts the calls answered; the store holds the
  chats \<open>chats\<close>, answers every history read with \<open>history\<close> and every write with
  \<open>written\<close>; the index answers with \<open>hits\<close> (at most the number asked for), the
  language model with \<open>reply\<close>.
\<close>

definition test_env ::
  "chat list \<Rightarrow> (exn + message list) \<Rightarrow> (exn + bool) \<Rightarrow> (exn + search_hit list)
     \<Rightarrow> (exn + pystr) \<Rightarrow> nat env" where
  "test_env chats history written hits reply =
     \<lparr>db_get_all_chats = (\<lambda>e. (Inr chats, Suc e)),
      db_get_chat_history = (\<lambda>cid e. (history, Suc e)),
      db_save_message = (\<lambda>cid role content is_rag chunks e. (written, Suc e)),
      db_create_chat = (\<lambda>cid title e. (Inr cid, Suc e)),
      db_update_chat_title = (\<lambda>cid title e. (written, Suc e)),
      collection_query = (\<lambda>q n e. (map_sum id (take n) hits, Suc e)),
      chain_stream = (\<lambda>c ms e. (map_sum id (\<lambda>r. [r]) reply, Suc e)),
      chain_invoke = (\<lambda>c ms e. (reply, Suc e)),
      shortuuid = (\<lambda>e. (ascii ''local'' @ str_nat e, Suc e))\<rparr>"

definition c1 :: pystr where
  "c1 = ascii ''c1''"

definition hello :: message where
  "hello = \<lparr>msg_role = ascii ''user'', msg_content = ascii ''hello'',
             msg_is_rag = None, msg_chunks = None\<rparr>"

definition answer :: message where
  "answer = \<lparr>msg_role = ascii ''assistant'', msg_content = ascii ''hi there'',
              msg_is_rag = Some False, msg_chunks = None\<rparr>"

definition hit :: "real \<Rightarrow> search_hit" where
  "hit d = \<lparr>hit_text = ascii ''text'', hit_distance = d,
            hit_metadata = \<lparr>md_source = Some (ascii ''rules.pdf''), md_page = Some (ascii ''1''),
                             md_chunk_index = Some (ascii ''0'')\<rparr>\<rparr>"

text \<open>The first script run of a session: nothing is in the session state.\<close>

definition empty_world :: "nat world" where
  "empty_world =
     \<lparr>chat_list = [], all_chat_histories = Map.empty,
      rag_manager = Some \<lparr>threshold = RAG_THRESHOLD\<rparr>,
      session = \<lparr>ss_chat_list = None, ss_all_chat_histories = None, ss_current_chat = None\<rparr>,
      ext = 0, trace = []\<rparr>"

text \<open>A later run: the chat \<open>c1\<close> is current and its history \<open>h\<close> is loaded.\<close>

definition loaded_world :: "chat list \<Rightarrow> message list \<Rightarrow> nat world" where
  "loaded_world cl h =
     \<lparr>chat_list = cl, all_chat_histories = [c1 \<mapsto> h],
      rag_manager = Some \<lparr>threshold = RAG_THRESHOLD\<rparr>,
      session = \<lparr>ss_chat_list = Some cl, ss_all_chat_histories = Some [c1 \<mapsto> h],
                 ss_current_chat = Some \<lparr>cc_id = Some c1, cc_title = Some (title_by_id cl c1)\<rparr>\<rparr>,
      ext = 0, trace = []\<rparr>"

section \<open>Basic facts\<close>

lemma call_eq:
  "call ev f w = (fst (f (ext w)), w\<lparr>ext := snd (f (ext w)), trace := trace w @ [ev]\<rparr>)"
  by (simp add: call_def split: prod.splits)

lemma test_env_simps:
  "db_get_all_chats (test_env chats history written hits reply) e = (Inr chats, Suc e)"
  "db_get_chat_history (test_env chats history written hits reply) cid e = (history, Suc e)"
  "db_save_message (test_env chats history written hits reply) cid role content is_rag chunks e
     = (written, Suc e)"
  "db_create_chat (test_env chats history written hits reply) cido title e = (Inr cido, Suc e)"
  "db_update_chat_title (test_env chats history written hits reply) cid title e = (written, Suc e)"
  "collection_query (test_env chats history written hits reply) q n e
     = (map_sum id (take n) hits, Suc e)"
  "chain_stream (test_env chats history written hits reply) c ms e
     = (map_sum id (\<lambda>r. [r]) reply, Suc e)"
  "chain_invoke (test_env chats history written hits reply) c ms e = (reply, Suc e)"
  "shortuuid (test_env chats history written hits reply) e = (ascii ''local'' @ str_nat e, Suc e)"
  by (simp_all add: test_env_def)

lemma loaded_world_simps:
  "chat_list (loaded_world cl h) = cl"
  "all_chat_histories (loaded_world cl h) = [c1 \<mapsto> h]"
  "rag_manager (loaded_world cl h) = Some \<lparr>threshold = RAG_THRESHOLD\<rparr>"
  "ss_chat_list (session (loaded_world cl h)) = Some cl"
  "ss_all_chat_histories (session (loaded_world cl h)) = Some [c1 \<mapsto> h]"
  "ss_current_chat (session (loaded_world cl h)) =
     Some \<lparr>cc_id = Some c1, cc_title = Some (title_by_id cl c1)\<rparr>"
  "ext (loaded_world cl h) = 0"
  "trace (loaded_world cl h) = []"
  by (simp_all add: loaded_world_def)

lemma roles_distinct: "USER \<noteq> ASSISTANT"
  by (simp add: USER_def ASSISTANT_def ascii_def)

lemma truthy_iff: "truthy c = (\<exists>x xs. c = Some (x # xs))"
  by (cases c rule: truthy.cases) simp_all

lemma make_message_fields:
  "msg_role (make_message role content is_rag chunks) = role"
  "msg_content (make_message role content is_rag chunks) = content"
  "msg_is_rag (make_message role content is_rag chunks) =
     (if role = ASSISTANT then Some is_rag else None)"
  "msg_chunks (make_message role content is_rag chunks) =
     (if role = ASSISTANT \<and> is_rag \<and> truthy chunks then chunks else None)"
  by (simp_all add: make_message_def Let_def)

section \<open>The history cache\<close>

lemma get_chat_histories_cached:
  "all_chat_histories w cid = Some h \<Longrightarrow> get_chat_histories env cid w = (Inr h, w)"
  by (simp add: get_chat_histories_def)

lemma get_chat_histories_fetch:
  "all_chat_histories w cid = None \<Longrightarrow> get_chat_histories env cid w = (Inr h, w1) \<Longrightarrow>
     trace w1 = trace w @ [GetChatHistory cid] \<and> all_chat_histories w1 cid = Some h
     \<and> fst (db_get_chat_history env cid (ext w)) = Inr h"
  by (auto simp: get_chat_histories_def call_eq Let_def split: sum.splits)

text \<open>The call returns whenever the history is cached or the store's read returns.\<close>

lemma get_chat_histories_returns:
  "all_chat_histories w cid \<noteq> None \<or> (\<exists>h. fst (db_get_chat_history env cid (ext w)) = Inr h)
     \<Longrightarrow> \<exists>h w1. get_chat_histories env cid w = (Inr h, w1)"
  by (auto simp: get_chat_histories_def call_eq Let_def split: sum.splits option.splits)

text \<open>
  C2. If \<^verbatim>\<open>get_chat_histories\<close> returns a history for an identifier, a second call in
  the state it leaves returns the same history and changes nothing, so it makes no call
  to the store. The first call either found the history cached and changed nothing, or
  found nothing cached, made exactly one read of the store and cached its answer. The two
  calls together read the store at most once.
\<close>

theorem get_chat_histories_idempotent:
  assumes "get_chat_histories env cid w = (Inr h, w1)"
  shows "get_chat_histories env cid w1 = (Inr h, w1)
     \<and> ((all_chat_histories w cid = Some h \<and> w1 = w)
        \<or> (all_chat_histories w cid = None \<and> trace w1 = trace w @ [GetChatHistory cid]
            \<and> all_chat_histories w1 cid = Some h))"
proof (cases "all_chat_histories w cid")
  case None
  from get_chat_histories_fetch [OF None assms] show ?thesis
    using None by (simp add: get_chat_histories_cached)
next
  case (Some h')
  with assms have "h' = h" "w1 = w"
    by (simp_all add: get_chat_histories_def)
  with Some show ?thesis
    by (simp add: get_chat_histories_cached)
qed

theorem get_chat_histories_idempotent_witness:
  "get_chat_histories (test_env [] (Inr [hello]) (Inr True) (Inr []) (Inr [])) c1 empty_world
     = (Inr [hello],
        snd (get_chat_histories (test_env [] (Inr [hello]) (Inr True) (Inr []) (Inr [])) c1
               empty_world))
   \<and> get_chat_histories (test_env [] (Inr [hello]) (Inr True) (Inr []) (Inr [])) c1
       (snd (get_chat_histories (test_env [] (Inr [hello]) (Inr True) (Inr []) (Inr [])) c1
               empty_world))
     = (Inr [hello],
        snd (get_chat_histories (test_env [] (Inr [hello]) (Inr True) (Inr []) (Inr [])) c1
               empty_world))
   \<and> trace (snd (get_chat_histories (test_env [] (Inr [hello]) (Inr True) (Inr []) (Inr [])) c1
               empty_world)) = [GetChatHistory c1]"
proof -
  let ?E = "test_env [] (Inr [hello]) (Inr True) (Inr []) (Inr [])"
  have first: "get_chat_histories ?E c1 empty_world
                 = (Inr [hello], snd (get_chat_histories ?E c1 empty_world))"
    by (simp add: get_chat_histories_def call_eq test_env_simps empty_world_def Let_def)
  have absent: "all_chat_histories empty_world c1 = None" "trace empty_world = []"
    by (simp_all add: empty_world_def)
  from get_chat_histories_idempotent [OF first] absent first show ?thesis
    by simp
qed

section \<open>Appending a message\<close>

lemma add_message_histories:
  "all_chat_histories (snd (add_message env cid role content is_rag chunks w)) =
     (all_chat_histories w)(cid \<mapsto>
        (case all_chat_histories w cid of None \<Rightarrow> [] | Some h \<Rightarrow> h)
        @ [make_message role content is_rag chunks])"
  by (auto simp: add_message_def call_eq Let_def split: sum.splits option.splits)

lemma add_message_trace:
  "trace (snd (add_message env cid role content is_rag chunks w)) =
     trace w @ [SaveMessage cid role content (if role = ASSISTANT then Some is_rag else None) chunks]"
  by (auto simp: add_message_def call_eq Let_def split: sum.splits option.splits)

text \<open>The method raises exactly when the store's write does.\<close>

lemma add_message_result:
  "fst (add_message env cid role content is_rag chunks w) =
     map_sum id (\<lambda>_. ())
       (fst (db_save_message env cid role content
               (if role = ASSISTANT then Some is_rag else None) chunks (ext w)))"
  by (auto simp: add_message_def call_eq Let_def split: sum.splits option.splits)

text \<open>
  C3. Whatever the store does with the write (return or raise), in the state that
  \<^verbatim>\<open>add_message\<close> leaves \<^verbatim>\<open>get_chat_histories\<close> returns, from the cache, the history
  cached before (the empty one if the identifier was absent) with one message more at
  the end: the message with the role and the content given, with the key \<^verbatim>\<open>is_rag\<close>
  for an assistant and the chunks for an assistant's retrieved answer. The call has sent
  the store one write, for that message. The append comes before the write: a write
  that raises leaves the method with the message appended.
\<close>

theorem add_message_then_get_history:
  "(\<exists>m. get_chat_histories env cid (snd (add_message env cid role content is_rag chunks w)) =
          (Inr ((case all_chat_histories w cid of None \<Rightarrow> [] | Some h \<Rightarrow> h) @ [m]),
           snd (add_message env cid role content is_rag chunks w))
      \<and> msg_role m = role \<and> msg_content m = content
      \<and> msg_is_rag m = (if role = ASSISTANT then Some is_rag else None)
      \<and> msg_chunks m =
          (if role = ASSISTANT \<and> is_rag \<and> (\<exists>c cs. chunks = Some (c # cs)) then chunks
           else None))
   \<and> trace (snd (add_message env cid role content is_rag chunks w)) =
       trace w @ [SaveMessage cid role content
                    (if role = ASSISTANT then Some is_rag else None) chunks]"
proof -
  let ?m = "make_message role content is_rag chunks"
  let ?w = "snd (add_message env cid role content is_rag chunks w)"
  have "all_chat_histories ?w cid =
          Some ((case all_chat_histories w cid of None \<Rightarrow> [] | Some h \<Rightarrow> h) @ [?m])"
    by (simp add: add_message_histories)
  then have cached: "get_chat_histories env cid ?w =
          (Inr ((case all_chat_histories w cid of None \<Rightarrow> [] | Some h \<Rightarrow> h) @ [?m]), ?w)"
    by (rule get_chat_histories_cached)
  have fields: "msg_role ?m = role" "msg_content ?m = content"
    "msg_is_rag ?m = (if role = ASSISTANT then Some is_rag else None)"
    "msg_chunks ?m =
       (if role = ASSISTANT \<and> is_rag \<and> (\<exists>c cs. chunks = Some (c # cs)) then chunks else None)"
    by (simp_all add: make_message_fields truthy_iff)
  from cached fields show ?thesis
    by (intro conjI exI [of _ ?m]) (simp_all only: add_message_trace)
qed

theorem add_message_then_get_history_witness:
  "fst (add_message (test_env [] (Inr []) (Inl (Raised (ascii ''Unavailable''))) (Inr []) (Inr []))
          (ascii ''c1'') (ascii ''user'') (ascii ''hello'') False None empty_world)
     = Inl (Raised (ascii ''Unavailable''))
   \<and> fst (get_chat_histories
            (test_env [] (Inr []) (Inl (Raised (ascii ''Unavailable''))) (Inr []) (Inr []))
            (ascii ''c1'')
            (snd (add_message
                    (test_env [] (Inr []) (Inl (Raised (ascii ''Unavailable''))) (Inr []) (Inr []))
                    (ascii ''c1'') (ascii ''user'') (ascii ''hello'') False None empty_world)))
     = Inr [\<lparr>msg_role = ascii ''user'', msg_content = ascii ''hello'',
              msg_is_rag = None, msg_chunks = None\<rparr>]
   \<and> fst (get_chat_histories
            (test_env [] (Inr []) (Inl (Raised (ascii ''Unavailable''))) (Inr []) (Inr []))
            (ascii ''c1'')
            (snd (add_message
                    (test_env [] (Inr []) (Inl (Raised (ascii ''Unavailable''))) (Inr []) (Inr []))
                    (ascii ''c1'') (ascii ''assistant'') (ascii ''hi there'') False None
                    (loaded_world []
                       [\<lparr>msg_role = ascii ''user'', msg_content = ascii ''hello'',
                          msg_is_rag = None, msg_chunks = None\<rparr>]))))
     = Inr [\<lparr>msg_role = ascii ''user'', msg_content = ascii ''hello'',
              msg_is_rag = None, msg_chunks = None\<rparr>,
            \<lparr>msg_role = ascii ''assistant'', msg_content = ascii ''hi there'',
              msg_is_rag = Some False, msg_chunks = None\<rparr>]"
proof -
  let ?E = "test_env [] (Inr []) (Inl (Raised (ascii ''Unavailable''))) (Inr []) (Inr [])"
  let ?u = "\<lparr>msg_role = ascii ''user'', msg_content = ascii ''hello'',
             msg_is_rag = None, msg_chunks = None\<rparr>"
  let ?a = "\<lparr>msg_role = ascii ''assistant'', msg_content = ascii ''hi there'',
             msg_is_rag = Some False, msg_chunks = None\<rparr>"
  have raised: "fst (add_message ?E (ascii ''c1'') (ascii ''user'') (ascii ''hello'') False None
                       empty_world) = Inl (Raised (ascii ''Unavailable''))"
    by (simp add: add_message_result test_env_simps)
  have absent: "all_chat_histories empty_world (ascii ''c1'') = None"
    by (simp add: empty_world_def)
  have present: "all_chat_histories (loaded_world [] [?u]) (ascii ''c1'') = Some [?u]"
    by (simp add: loaded_world_simps c1_def)
  have roles: "ascii ''user'' \<noteq> ASSISTANT" "ascii ''assistant'' = ASSISTANT"
    by (simp_all add: ASSISTANT_def ascii_def)
  have message: "m = \<lparr>msg_role = msg_role m, msg_content = msg_content m,
                       msg_is_rag = msg_is_rag m, msg_chunks = msg_chunks m\<rparr>" for m :: message
    by simp
  from add_message_then_get_history
         [of ?E "ascii ''c1''" "ascii ''user''" "ascii ''hello''" False None empty_world]
  obtain m where first: "get_chat_histories ?E (ascii ''c1'')
        (snd (add_message ?E (ascii ''c1'') (ascii ''user'') (ascii ''hello'') False None
                empty_world))
      = (Inr ([] @ [m]),
         snd (add_message ?E (ascii ''c1'') (ascii ''user'') (ascii ''hello'') False None
                empty_world))"
    and "msg_role m = ascii ''user''" "msg_content m = ascii ''hello''"
    and "msg_is_rag m = None" "msg_chunks m = None"
    unfolding absent using roles by auto
  then have m: "m = ?u"
    using message [of m] by simp
  from add_message_then_get_history
         [of ?E "ascii ''c1''" "ascii ''assistant''" "ascii ''hi there''" False None
             "loaded_world [] [?u]"]
  obtain n where second: "get_chat_histories ?E (ascii ''c1'')
        (snd (add_message ?E (ascii ''c1'') (ascii ''assistant'') (ascii ''hi there'') False None
                (loaded_world [] [?u])))
      = (Inr ([?u] @ [n]),
         snd (add_message ?E (ascii ''c1'') (ascii ''assistant'') (ascii ''hi there'') False None
                (loaded_world [] [?u])))"
    and "msg_role n = ascii ''assistant''" "msg_content n = ascii ''hi there''"
    and "msg_is_rag n = Some False" "msg_chunks n = None"
    unfolding present using roles by auto
  then have n: "n = ?a"
    using message [of n] by simp
  from raised first second show ?thesis
    unfolding m n by simp
qed

section \<open>The message dictionary\<close>

text \<open>
  C9. The message that \<^verbatim>\<open>add_message\<close> builds and appends to the cached history has
  the key \<^verbatim>\<open>chunks\<close> exactly when the role is assistant, \<^verbatim>\<open>is_rag\<close> is true and a
  non-empty list of chunks was supplied, and then it holds that list; it has the key
  \<^verbatim>\<open>is_rag\<close> exactly when the role is assistant, and then it holds the flag. So an
  assistant message built with \<^verbatim>\<open>is_rag\<close> false has no \<^verbatim>\<open>chunks\<close> key, and a user
  message has neither key. (The store is handed \<^verbatim>\<open>chunks\<close> as supplied; what it keeps
  is its own matter.)
\<close>

theorem add_message_chunks_iff:
  "\<exists>m. all_chat_histories (snd (add_message env cid role content is_rag chunks w)) cid =
          Some ((case all_chat_histories w cid of None \<Rightarrow> [] | Some h \<Rightarrow> h) @ [m])
      \<and> msg_role m = role \<and> msg_content m = content
      \<and> (msg_chunks m \<noteq> None) = (role = ASSISTANT \<and> is_rag \<and> (\<exists>c cs. chunks = Some (c # cs)))
      \<and> (msg_chunks m = None \<or> msg_chunks m = chunks)
      \<and> (msg_is_rag m \<noteq> None) = (role = ASSISTANT)
      \<and> (msg_is_rag m = None \<or> msg_is_rag m = Some is_rag)"
proof -
  let ?m = "make_message role content is_rag chunks"
  have stored: "all_chat_histories (snd (add_message env cid role content is_rag chunks w)) cid =
          Some ((case all_chat_histories w cid of None \<Rightarrow> [] | Some h \<Rightarrow> h) @ [?m])"
    by (simp add: add_message_histories)
  have present: "(msg_chunks ?m \<noteq> None) =
          (role = ASSISTANT \<and> is_rag \<and> (\<exists>c cs. chunks = Some (c # cs)))"
    by (auto simp: make_message_fields truthy_iff)
  have verbatim: "msg_chunks ?m = None \<or> msg_chunks ?m = chunks"
    by (simp add: make_message_fields)
  have flag: "(msg_is_rag ?m \<noteq> None) = (role = ASSISTANT)"
    "msg_is_rag ?m = None \<or> msg_is_rag ?m = Some is_rag"
    by (simp_all add: make_message_fields)
  from stored present verbatim flag show ?thesis
    by (intro exI [of _ ?m] conjI) (simp_all only: make_message_fields)
qed

theorem add_message_chunks_iff_witness:
  "(\<exists>m. all_chat_histories
          (snd (add_message (test_env [] (Inr []) (Inr True) (Inr []) (Inr []))
                  c1 ASSISTANT (ascii ''hi there'') False
                  (Some [\<lparr>chunk_id = ascii ''rules.pdf_1_0'', chunk_distance = 0.9,
                          chunk_source = ascii ''rules.pdf''\<rparr>]) empty_world)) c1 = Some [m]
        \<and> msg_chunks m = None \<and> msg_is_rag m = Some False)
   \<and> (\<exists>m. all_chat_histories
          (snd (add_message (test_env [] (Inr []) (Inr True) (Inr []) (Inr []))
                  c1 ASSISTANT (ascii ''hi there'') True
                  (Some [\<lparr>chunk_id = ascii ''rules.pdf_1_0'', chunk_distance = 0.9,
                          chunk_source = ascii ''rules.pdf''\<rparr>]) empty_world)) c1 = Some [m]
        \<and> msg_chunks m = Some [\<lparr>chunk_id = ascii ''rules.pdf_1_0'', chunk_distance = 0.9,
                                 chunk_source = ascii ''rules.pdf''\<rparr>])
   \<and> (\<exists>m. all_chat_histories
          (snd (add_message (test_env [] (Inr []) (Inr True) (Inr []) (Inr []))
                  c1 USER (ascii ''hello'') True
                  (Some [\<lparr>chunk_id = ascii ''rules.pdf_1_0'', chunk_distance = 0.9,
                          chunk_source = ascii ''rules.pdf''\<rparr>]) empty_world)) c1 = Some [m]
        \<and> msg_chunks m = None \<and> msg_is_rag m = None)"
proof -
  let ?E = "test_env [] (Inr []) (Inr True) (Inr []) (Inr [])"
  let ?c = "\<lparr>chunk_id = ascii ''rules.pdf_1_0'', chunk_distance = 0.9,
             chunk_source = ascii ''rules.pdf''\<rparr>"
  have absent: "all_chat_histories empty_world c1 = None"
    by (simp add: empty_world_def)
  have roles: "USER \<noteq> ASSISTANT"
    by (simp add: USER_def ASSISTANT_def ascii_def)
  have plain: "\<exists>m. all_chat_histories
          (snd (add_message ?E c1 ASSISTANT (ascii ''hi there'') False (Some [?c]) empty_world)) c1
            = Some [m] \<and> msg_chunks m = None \<and> msg_is_rag m = Some False"
    using add_message_chunks_iff [of ?E c1 ASSISTANT "ascii ''hi there''" False "Some [?c]" empty_world]
    unfolding absent by fastforce
  have retrieved: "\<exists>m. all_chat_histories
          (snd (add_message ?E c1 ASSISTANT (ascii ''hi there'') True (Some [?c]) empty_world)) c1
            = Some [m] \<and> msg_chunks m = Some [?c]"
    using add_message_chunks_iff [of ?E c1 ASSISTANT "ascii ''hi there''" True "Some [?c]" empty_world]
    unfolding absent by fastforce
  have user: "\<exists>m. all_chat_histories
          (snd (add_message ?E c1 USER (ascii ''hello'') True (Some [?c]) empty_world)) c1
            = Some [m] \<and> msg_chunks m = None \<and> msg_is_rag m = None"
    using add_message_chunks_iff [of ?E c1 USER "ascii ''hello''" True "Some [?c]" empty_world] roles
    unfolding absent by fastforce
  from plain retrieved user show ?thesis
    by (intro conjI)
qed

section \<open>The constructor\<close>

text \<open>
  C4. If the session state holds a chat list, \<^verbatim>\<open>_restore_from_session_state\<close>
  returns with that list and the stored histories (the empty dictionary if the session
  has none) as the manager's attributes and changes nothing else: the log of calls, the
  outside world and the session state are as before. If the session state holds no chat
  list, it makes exactly one call, the read of the chat list; if that raises, so does the
  constructor; if it returns a list, the attributes are that list and the empty
  dictionary, and both are written to the session state.
\<close>

theorem restore_from_session_state_adopts:
  "(\<forall>cl. ss_chat_list (session w) = Some cl \<longrightarrow>
      restore_from_session_state env w =
        (Inr (), w\<lparr>chat_list := cl,
                   all_chat_histories :=
                     (case ss_all_chat_histories (session w) of
                        Some hs \<Rightarrow> hs | None \<Rightarrow> Map.empty)\<rparr>))
   \<and> (ss_chat_list (session w) = None \<longrightarrow>
        trace (snd (restore_from_session_state env w)) = trace w @ [GetAllChats]
        \<and> (\<forall>x. fst (db_get_all_chats env (ext w)) = Inl x \<longrightarrow>
              fst (restore_from_session_state env w) = Inl x)
        \<and> (\<forall>cl. fst (db_get_all_chats env (ext w)) = Inr cl \<longrightarrow>
              fst (restore_from_session_state env w) = Inr ()
              \<and> chat_list (snd (restore_from_session_state env w)) = cl
              \<and> all_chat_histories (snd (restore_from_session_state env w)) = Map.empty
              \<and> ss_chat_list (session (snd (restore_from_session_state env w))) = Some cl
              \<and> ss_all_chat_histories (session (snd (restore_from_session_state env w)))
                  = Some Map.empty))"
  by (auto simp: restore_from_session_state_def load_chat_list_from_db_def call_eq
           split: sum.splits)

theorem restore_from_session_state_adopts_witness:
  "restore_from_session_state (test_env [] (Inr []) (Inr True) (Inr []) (Inr []))
      ((loaded_world [\<lparr>chat_id = c1, chat_title = NEW_CHAT\<rparr>] [hello])
         \<lparr>chat_list := [], all_chat_histories := Map.empty\<rparr>)
     = (Inr (), loaded_world [\<lparr>chat_id = c1, chat_title = NEW_CHAT\<rparr>] [hello])
   \<and> trace (snd (restore_from_session_state
                   (test_env [\<lparr>chat_id = c1, chat_title = NEW_CHAT\<rparr>] (Inr []) (Inr True)
                      (Inr []) (Inr [])) empty_world)) = [GetAllChats]
   \<and> chat_list (snd (restore_from_session_state
                   (test_env [\<lparr>chat_id = c1, chat_title = NEW_CHAT\<rparr>] (Inr []) (Inr True)
                      (Inr []) (Inr [])) empty_world)) = [\<lparr>chat_id = c1, chat_title = NEW_CHAT\<rparr>]"
proof -
  let ?new = "\<lparr>chat_id = c1, chat_title = NEW_CHAT\<rparr>"
  let ?E = "test_env [] (Inr []) (Inr True) (Inr []) (Inr [])"
  let ?E' = "test_env [?new] (Inr []) (Inr True) (Inr []) (Inr [])"
  let ?W = "(loaded_world [?new] [hello])\<lparr>chat_list := [], all_chat_histories := Map.empty\<rparr>"
  have stored: "ss_chat_list (session ?W) = Some [?new]"
    by (simp add: loaded_world_simps)
  have adopted: "?W\<lparr>chat_list := [?new],
                    all_chat_histories :=
                      (case ss_all_chat_histories (session ?W) of
                         Some hs \<Rightarrow> hs | None \<Rightarrow> Map.empty)\<rparr> = loaded_world [?new] [hello]"
    by (simp add: loaded_world_def)
  have fresh: "ss_chat_list (session empty_world) = None" "trace empty_world = []"
    "fst (db_get_all_chats ?E' (ext empty_world)) = Inr [?new]"
    by (simp_all add: empty_world_def test_env_simps)
  from restore_from_session_state_adopts [of ?W ?E]
    restore_from_session_state_adopts [of empty_world ?E']
  show ?thesis
    using stored adopted fresh by simp
qed

section \<open>Automatic titles\<close>

text \<open>
  The title lookup returns the title of the first entry of the chat list that has the
  identifier, and the title of an unknown chat if no entry has it.
\<close>

lemma title_by_id_find:
  "title_by_id cl cid =
     (case find (\<lambda>c. chat_id c = cid) cl of None \<Rightarrow> UNKNOWN_CHAT | Some c \<Rightarrow> chat_title c)"
  by (induction cl) simp_all

lemma unknown_chat_no_marker: "\<not> startswith UNKNOWN_CHAT NEW_CHAT"
  by (simp add: startswith_def UNKNOWN_CHAT_def NEW_CHAT_def)

text \<open>
  C7. \<^verbatim>\<open>should_generate_title\<close> returns true exactly when the chat list has an entry
  with the identifier, the title of the first such entry starts with the new-chat
  marker, and the history that \<^verbatim>\<open>get_chat_histories\<close> returns has at least two
  messages. It returns false exactly when no entry has the identifier, or the title of
  the first one does not start with the marker, or the history returned has fewer than
  two messages. (It raises in the remaining case: the title carries the marker and
  reading the history raises.) When the history is cached, nothing is read and the state
  stays as it is.
\<close>

theorem should_generate_title_iff:
  "(fst (should_generate_title env cid w) = Inr True) =
     ((\<exists>c. find (\<lambda>c. chat_id c = cid) (chat_list w) = Some c
           \<and> startswith (chat_title c) NEW_CHAT)
      \<and> (\<exists>h. fst (get_chat_histories env cid w) = Inr h \<and> 2 \<le> length h))
   \<and> (fst (should_generate_title env cid w) = Inr False) =
     ((\<forall>c. find (\<lambda>c. chat_id c = cid) (chat_list w) = Some c
           \<longrightarrow> \<not> startswith (chat_title c) NEW_CHAT)
      \<or> (\<exists>h. fst (get_chat_histories env cid w) = Inr h \<and> length h < 2))
   \<and> (\<forall>h. all_chat_histories w cid = Some h \<longrightarrow>
         should_generate_title env cid w =
           (Inr ((\<exists>c. find (\<lambda>c. chat_id c = cid) (chat_list w) = Some c
                      \<and> startswith (chat_title c) NEW_CHAT)
                 \<and> 2 \<le> length h), w))"
proof -
  have title: "startswith (get_chat_title_by_id w cid) NEW_CHAT =
                 (\<exists>c. find (\<lambda>c. chat_id c = cid) (chat_list w) = Some c
                      \<and> startswith (chat_title c) NEW_CHAT)"
    by (simp add: get_chat_title_by_id_def title_by_id_find unknown_chat_no_marker
          split: option.splits)
  have cached: "should_generate_title env cid w =
           (Inr (startswith (get_chat_title_by_id w cid) NEW_CHAT \<and> 2 \<le> length h), w)"
    if "all_chat_histories w cid = Some h" for h
    using get_chat_histories_cached [OF that, of env]
    by (simp add: should_generate_title_def Let_def)
  obtain r w1 where got: "get_chat_histories env cid w = (r, w1)"
    by (cases "get_chat_histories env cid w")
  have yes: "(fst (should_generate_title env cid w) = Inr True) =
       (startswith (get_chat_title_by_id w cid) NEW_CHAT
        \<and> (\<exists>h. fst (get_chat_histories env cid w) = Inr h \<and> 2 \<le> length h))"
    using got by (cases r) (auto simp: should_generate_title_def Let_def)
  have no: "(fst (should_generate_title env cid w) = Inr False) =
       (\<not> startswith (get_chat_title_by_id w cid) NEW_CHAT
        \<or> (\<exists>h. fst (get_chat_histories env cid w) = Inr h \<and> length h < 2))"
    using got by (cases r) (auto simp: should_generate_title_def Let_def)
  from yes no cached show ?thesis
    unfolding title by blast
qed

theorem should_generate_title_iff_witness:
  "fst (should_generate_title (test_env [] (Inr []) (Inr True) (Inr []) (Inr [])) c1
          (loaded_world [\<lparr>chat_id = ascii ''c0'', chat_title = ascii ''Python''\<rparr>,
                         \<lparr>chat_id = c1, chat_title = NEW_CHAT\<rparr>] [hello])) = Inr False
   \<and> fst (should_generate_title (test_env [] (Inr []) (Inr True) (Inr []) (Inr [])) c1
          (loaded_world [\<lparr>chat_id = ascii ''c0'', chat_title = ascii ''Python''\<rparr>,
                         \<lparr>chat_id = c1, chat_title = NEW_CHAT\<rparr>] [hello, answer])) = Inr True
   \<and> fst (should_generate_title (test_env [] (Inr []) (Inr True) (Inr []) (Inr [])) c1
          (loaded_world [\<lparr>chat_id = ascii ''c0'', chat_title = NEW_CHAT\<rparr>,
                         \<lparr>chat_id = c1, chat_title = ascii ''Python''\<rparr>] [hello, answer]))
       = Inr False
   \<and> fst (should_generate_title (test_env [] (Inr []) (Inr True) (Inr []) (Inr [])) c1
          (loaded_world [\<lparr>chat_id = c1, chat_title = NEW_CHAT @ ascii '' 2''\<rparr>]
             [hello, answer])) = Inr True"
proof -
  let ?E = "test_env [] (Inr []) (Inr True) (Inr []) (Inr [])"
  let ?second = "[\<lparr>chat_id = ascii ''c0'', chat_title = ascii ''Python''\<rparr>,
                  \<lparr>chat_id = c1, chat_title = NEW_CHAT\<rparr>]"
  let ?named = "[\<lparr>chat_id = ascii ''c0'', chat_title = NEW_CHAT\<rparr>,
                 \<lparr>chat_id = c1, chat_title = ascii ''Python''\<rparr>]"
  let ?longer = "[\<lparr>chat_id = c1, chat_title = NEW_CHAT @ ascii '' 2''\<rparr>]"
  have found: "find (\<lambda>c. chat_id c = c1) ?second = Some \<lparr>chat_id = c1, chat_title = NEW_CHAT\<rparr>"
    "find (\<lambda>c. chat_id c = c1) ?named = Some \<lparr>chat_id = c1, chat_title = ascii ''Python''\<rparr>"
    "find (\<lambda>c. chat_id c = c1) ?longer
       = Some \<lparr>chat_id = c1, chat_title = NEW_CHAT @ ascii '' 2''\<rparr>"
    by (simp_all add: c1_def ascii_def)
  have marker: "startswith NEW_CHAT NEW_CHAT" "startswith (NEW_CHAT @ ascii '' 2'') NEW_CHAT"
    "\<not> startswith (ascii ''Python'') NEW_CHAT"
    by (simp_all add: startswith_def NEW_CHAT_def ascii_def)
  have cached: "all_chat_histories (loaded_world cl h) c1 = Some h" for cl h
    by (simp add: loaded_world_simps)
  have a: "fst (should_generate_title ?E c1 (loaded_world ?second [hello])) = Inr False"
    using should_generate_title_iff [of ?E c1 "loaded_world ?second [hello]",
            THEN conjunct2, THEN conjunct2, rule_format, OF cached]
    unfolding loaded_world_simps(1) found by (simp add: marker)
  have b: "fst (should_generate_title ?E c1 (loaded_world ?second [hello, answer])) = Inr True"
    using should_generate_title_iff [of ?E c1 "loaded_world ?second [hello, answer]",
            THEN conjunct2, THEN conjunct2, rule_format, OF cached]
    unfolding loaded_world_simps(1) found by (simp add: marker)
  have c: "fst (should_generate_title ?E c1 (loaded_world ?named [hello, answer])) = Inr False"
    using should_generate_title_iff [of ?E c1 "loaded_world ?named [hello, answer]",
            THEN conjunct2, THEN conjunct2, rule_format, OF cached]
    unfolding loaded_world_simps(1) found by (simp add: marker)
  have d: "fst (should_generate_title ?E c1 (loaded_world ?longer [hello, answer])) = Inr True"
    using should_generate_title_iff [of ?E c1 "loaded_world ?longer [hello, answer]",
            THEN conjunct2, THEN conjunct2, rule_format, OF cached]
    unfolding loaded_world_simps(1) found by (simp add: marker)
  from a b c d show ?thesis
    by (intro conjI)
qed

lemma generate_title_eq:
  "chain_invoke env TitleChain ms (ext w) = (Inr s, e2) \<Longrightarrow>
     generate_title env ms w =
       (Inr (take 15 (strip s)), w\<lparr>ext := e2, trace := trace w @ [Invoke TitleChain ms]\<rparr>)"
  by (simp add: generate_title_def call_eq Let_def TITLE_MAX_LENGTH_def)

text \<open>Every title that \<^verbatim>\<open>generate_chat_title\<close> returns has at most 15 code points.\<close>

lemma generate_chat_title_length:
  "fst (generate_chat_title env cid w) = Inr t \<Longrightarrow> length t \<le> 15"
  by (auto simp: generate_chat_title_def generate_title_def call_eq Let_def TITLE_MAX_LENGTH_def
           split: prod.splits sum.splits if_splits)

text \<open>The translation keeps every message whose role is user or assistant, in order.\<close>

lemma format_chat_histories_roles:
  "\<forall>m \<in> set h. msg_role m = USER \<or> msg_role m = ASSISTANT \<Longrightarrow>
     map lc_content (format_chat_histories h) = map msg_content h"
  by (induction h) auto

text \<open>
  C8. When the history of the chat is \<open>h\<close> and the title chain, called with the
  translation of the first two messages of \<open>h\<close>, returns the string \<open>s\<close>, then
  \<^verbatim>\<open>generate_chat_title\<close> makes exactly that call and returns \<open>s\<close> without its leading
  and trailing whitespace, cut to its first 15 code points; the title has at most 15
  code points. The translation holds the contents of exactly those first two messages
  when their roles are user or assistant (a message of another role is passed over).
\<close>

theorem generate_chat_title_first_two:
  assumes "get_chat_histories env cid w = (Inr h, w1)"
    and "chain_invoke env TitleChain (format_chat_histories (take 2 h)) (ext w1) = (Inr s, e2)"
  shows "generate_chat_title env cid w =
           (Inr (take 15 (strip s)),
            w1\<lparr>ext := e2,
               trace := trace w1 @ [Invoke TitleChain (format_chat_histories (take 2 h))]\<rparr>)
         \<and> length (take 15 (strip s)) \<le> 15
         \<and> ((\<forall>m \<in> set (take 2 h). msg_role m = USER \<or> msg_role m = ASSISTANT) \<longrightarrow>
              map lc_content (format_chat_histories (take 2 h)) = map msg_content (take 2 h))"
  using assms
  by (simp add: generate_chat_title_def Let_def generate_title_eq format_chat_histories_roles)

theorem generate_chat_title_first_two_witness:
  "fst (generate_chat_title
          (test_env [] (Inr []) (Inr True) (Inr [])
             (Inr (ascii ''  A title of more than fifteen characters '')))
          c1 (loaded_world [\<lparr>chat_id = c1, chat_title = NEW_CHAT\<rparr>] [hello, answer, hello]))
     = Inr (ascii ''A title of more'')
   \<and> trace (snd (generate_chat_title
          (test_env [] (Inr []) (Inr True) (Inr [])
             (Inr (ascii ''  A title of more than fifteen characters '')))
          c1 (loaded_world [\<lparr>chat_id = c1, chat_title = NEW_CHAT\<rparr>] [hello, answer, hello])))
     = [Invoke TitleChain [HumanMessage (ascii ''hello''), AIMessage (ascii ''hi there'')]]"
proof -
  let ?s = "ascii ''  A title of more than fifteen characters ''"
  let ?E = "test_env [] (Inr []) (Inr True) (Inr []) (Inr ?s)"
  let ?W = "loaded_world [\<lparr>chat_id = c1, chat_title = NEW_CHAT\<rparr>] [hello, answer, hello]"
  have cached: "get_chat_histories ?E c1 ?W = (Inr [hello, answer, hello], ?W)"
    by (simp add: get_chat_histories_cached loaded_world_simps)
  have reply: "chain_invoke ?E TitleChain (format_chat_histories (take 2 [hello, answer, hello]))
                 (ext ?W) = (Inr ?s, Suc 0)"
    by (simp add: test_env_simps loaded_world_simps)
  have first_two: "format_chat_histories (take 2 [hello, answer, hello]) =
                     [HumanMessage (ascii ''hello''), AIMessage (ascii ''hi there'')]"
    by (simp add: hello_def answer_def USER_def ASSISTANT_def ascii_def)
  have cut: "take 15 (strip ?s) = ascii ''A title of more''"
    by (simp add: strip_def ascii_def isspace_def)
  from generate_chat_title_first_two [OF cached reply, unfolded first_two cut] show ?thesis
    by (simp add: loaded_world_simps)
qed

section \<open>The retrieval gate\<close>

lemma search_with_threshold_eq:
  "search_with_threshold env q thr n w =
     (map_sum id (\<lambda>hits. (hits, \<exists>h\<in>set hits. hit_distance h \<le> thr))
        (fst (collection_query env q n (ext w))),
      w\<lparr>ext := snd (collection_query env q n (ext w)),
        trace := trace w @ [CollectionQuery q n]\<rparr>)"
  by (simp add: search_with_threshold_def call_eq list_ex_iff split: sum.splits)

lemma query_eq:
  "query env rm q w =
     (map_sum id (\<lambda>hits. (hits, \<exists>h\<in>set hits. hit_distance h \<le> threshold rm))
        (fst (collection_query env q 3 (ext w))),
      w\<lparr>ext := snd (collection_query env q 3 (ext w)),
        trace := trace w @ [CollectionQuery q 3]\<rparr>)"
  by (simp add: query_def search_with_threshold_eq TOP_K_RESULTS_def)

lemma get_rag_response_data_use_rag:
  "fst (query env rm q w) = Inr (hits, flag) \<Longrightarrow>
     \<exists>d. fst (get_rag_response_data env rm q w) = Inr d \<and> use_rag d = flag"
  by (cases "query env rm q w") (simp add: get_rag_response_data_def Let_def)

text \<open>
  C1. \<^verbatim>\<open>RAGManager.query\<close> asks the index once, for 3 results. When the index returns
  hits, the search returns those hits and a flag that is true exactly when one of them
  has a distance at most the manager's threshold at the time of the call; every result
  the search returns is of this kind, and \<^verbatim>\<open>get_rag_response_data\<close> reports its flag
  as \<^verbatim>\<open>use_rag\<close>. The threshold comparison itself is in the modelled
  \<open>search_with_threshold\<close>.
\<close>

theorem query_use_rag_iff:
  "trace (snd (query env rm q w)) = trace w @ [CollectionQuery q 3]
   \<and> (\<forall>hits. fst (collection_query env q 3 (ext w)) = Inr hits \<longrightarrow>
         fst (query env rm q w) =
           Inr (hits, \<exists>h \<in> set hits. hit_distance h \<le> threshold rm))
   \<and> (\<forall>hits flag. fst (query env rm q w) = Inr (hits, flag) \<longrightarrow>
         flag = (\<exists>h \<in> set hits. hit_distance h \<le> threshold rm)
         \<and> fst (collection_query env q 3 (ext w)) = Inr hits
         \<and> (\<exists>d. fst (get_rag_response_data env rm q w) = Inr d \<and> use_rag d = flag))"
proof (intro conjI allI impI)
  show "trace (snd (query env rm q w)) = trace w @ [CollectionQuery q 3]"
    by (simp add: query_eq)
next
  fix hits
  assume "fst (collection_query env q 3 (ext w)) = Inr hits"
  then show "fst (query env rm q w) =
               Inr (hits, \<exists>h \<in> set hits. hit_distance h \<le> threshold rm)"
    by (simp add: query_eq)
next
  fix hits flag
  assume returned: "fst (query env rm q w) = Inr (hits, flag)"
  then show "flag = (\<exists>h \<in> set hits. hit_distance h \<le> threshold rm)"
    and "fst (collection_query env q 3 (ext w)) = Inr hits"
    by (cases "fst (collection_query env q 3 (ext w))"; simp add: query_eq)+
  from returned
  show "\<exists>d. fst (get_rag_response_data env rm q w) = Inr d \<and> use_rag d = flag"
    by (rule get_rag_response_data_use_rag)
qed

theorem query_use_rag_iff_witness:
  "fst (query (test_env [] (Inr []) (Inr True) (Inr [hit 0.9, hit 1.3, hit 1.8]) (Inr []))
          \<lparr>threshold = 1.2\<rparr> (ascii ''rules?'') empty_world)
     = Inr ([hit 0.9, hit 1.3, hit 1.8], True)
   \<and> map_sum id use_rag
       (fst (get_rag_response_data
               (test_env [] (Inr []) (Inr True) (Inr [hit 0.9, hit 1.3, hit 1.8]) (Inr []))
               \<lparr>threshold = 1.2\<rparr> (ascii ''rules?'') empty_world)) = Inr True
   \<and> map_sum id use_rag
       (fst (get_rag_response_data
               (test_env [] (Inr []) (Inr True) (Inr [hit 0.9, hit 1.3, hit 1.8]) (Inr []))
               \<lparr>threshold = 0.8\<rparr> (ascii ''rules?'') empty_world)) = Inr False"
proof -
  let ?E = "test_env [] (Inr []) (Inr True) (Inr [hit 0.9, hit 1.3, hit 1.8]) (Inr [])"
  let ?q = "ascii ''rules?''"
  have hits: "fst (collection_query ?E ?q 3 (ext empty_world))
                = Inr [hit 0.9, hit 1.3, hit 1.8]"
    by (simp add: test_env_simps)
  have near: "fst (query ?E \<lparr>threshold = 1.2\<rparr> ?q empty_world)
                = Inr ([hit 0.9, hit 1.3, hit 1.8], True)"
    using query_use_rag_iff [of ?E "\<lparr>threshold = 1.2\<rparr>" ?q empty_world,
            THEN conjunct2, THEN conjunct1, rule_format, OF hits]
    by (simp add: hit_def)
  have far: "fst (query ?E \<lparr>threshold = 0.8\<rparr> ?q empty_world)
                = Inr ([hit 0.9, hit 1.3, hit 1.8], False)"
    using query_use_rag_iff [of ?E "\<lparr>threshold = 0.8\<rparr>" ?q empty_world,
            THEN conjunct2, THEN conjunct1, rule_format, OF hits]
    by (simp add: hit_def)
  from query_use_rag_iff [of ?E "\<lparr>threshold = 1.2\<rparr>" ?q empty_world,
         THEN conjunct2, THEN conjunct2, rule_format, OF near]
  obtain d where d: "fst (get_rag_response_data ?E \<lparr>threshold = 1.2\<rparr> ?q empty_world) = Inr d"
    "use_rag d = True"
    by blast
  from query_use_rag_iff [of ?E "\<lparr>threshold = 0.8\<rparr>" ?q empty_world,
         THEN conjunct2, THEN conjunct2, rule_format, OF far]
  obtain d' where d': "fst (get_rag_response_data ?E \<lparr>threshold = 0.8\<rparr> ?q empty_world) = Inr d'"
    "use_rag d' = False"
    by blast
  from near d d' show ?thesis
    by simp
qed

section \<open>A failing index\<close>





text \<open>
  Two whole turns at concrete inputs: the chat \<open>c1\<close> is new and empty, the store and the
  language model answer. When the index raises, the turn ends with that exception after
  the user's message was stored: no answer, no title. When the index returns hits
  beyond the threshold, the turn returns: the history holds the user's message and the
  assistant's, the latter without retrieval, and the title is generated.
\<close>

lemma turn_with_failing_index:
  "fst (render_chat_input
          (test_env [] (Inr []) (Inr True) (Inl (Raised (ascii ''Unavailable'')))
             (Inr (ascii ''hi there'')))
          (ascii ''hello'') (loaded_world [\<lparr>chat_id = c1, chat_title = NEW_CHAT\<rparr>] []))
     = Inl (Raised (ascii ''Unavailable''))"
  "all_chat_histories (snd (render_chat_input
          (test_env [] (Inr []) (Inr True) (Inl (Raised (ascii ''Unavailable'')))
             (Inr (ascii ''hi there'')))
          (ascii ''hello'') (loaded_world [\<lparr>chat_id = c1, chat_title = NEW_CHAT\<rparr>] []))) c1
     = Some [hello]"
  "trace (snd (render_chat_input
          (test_env [] (Inr []) (Inr True) (Inl (Raised (ascii ''Unavailable'')))
             (Inr (ascii ''hi there'')))
          (ascii ''hello'') (loaded_world [\<lparr>chat_id = c1, chat_title = NEW_CHAT\<rparr>] [])))
     = [CreateChat (Some c1) NEW_CHAT,
        SaveMessage c1 USER (ascii ''hello'') None None,
        CollectionQuery (ascii ''hello'') 3]"
  by (simp_all add: render_chat_input_def add_user_message_def process_ai_response_def
        current_chat_id_def current_chat_title_def get_chat_histories_def add_message_def
        make_message_def get_rag_response_data_def query_def search_with_threshold_def
        call_eq test_env_simps loaded_world_def Let_def roles_distinct
        roles_distinct [symmetric] hello_def USER_def ASSISTANT_def ascii_def
        TOP_K_RESULTS_def)

lemma turn_without_relevant_hit:
  "fst (render_chat_input
          (test_env [] (Inr []) (Inr True) (Inr [hit 1.3, hit 1.8]) (Inr (ascii ''hi there'')))
          (ascii ''hello'') (loaded_world [\<lparr>chat_id = c1, chat_title = NEW_CHAT\<rparr>] [])) = Inr ()"
  "all_chat_histories (snd (render_chat_input
          (test_env [] (Inr []) (Inr True) (Inr [hit 1.3, hit 1.8]) (Inr (ascii ''hi there'')))
          (ascii ''hello'') (loaded_world [\<lparr>chat_id = c1, chat_title = NEW_CHAT\<rparr>] []))) c1
     = Some [hello, answer]"
  "trace (snd (render_chat_input
          (test_env [] (Inr []) (Inr True) (Inr [hit 1.3, hit 1.8]) (Inr (ascii ''hi there'')))
          (ascii ''hello'') (loaded_world [\<lparr>chat_id = c1, chat_title = NEW_CHAT\<rparr>] [])))
     = [CreateChat (Some c1) NEW_CHAT,
        SaveMessage c1 USER (ascii ''hello'') None None,
        CollectionQuery (ascii ''hello'') 3,
        Stream NormalChain [HumanMessage (ascii ''hello'')],
        SaveMessage c1 ASSISTANT (ascii ''hi there'') (Some False) None,
        Invoke TitleChain [HumanMessage (ascii ''hello''), AIMessage (ascii ''hi there'')],
        UpdateChatTitle c1 (ascii ''hi there'')]"
  by (simp_all add: render_chat_input_def add_user_message_def process_ai_response_def
        auto_generate_title_if_needed_def current_chat_id_def current_chat_title_def
        get_chat_histories_def add_message_def make_message_def get_rag_response_data_def
        query_def search_with_threshold_def generate_normal_response_def add_ai_message_def
        should_generate_title_def get_chat_title_by_id_def generate_chat_title_def
        generate_title_def update_chat_title_def set_current_chat_def call_eq test_env_simps
        loaded_world_def Let_def roles_distinct roles_distinct [symmetric] startswith_def
        hello_def answer_def hit_def RAG_THRESHOLD_def TOP_K_RESULTS_def TITLE_MAX_LENGTH_def
        strip_def isspace_def ascii_def NEW_CHAT_def USER_def ASSISTANT_def)

section \<open>Unknown identifiers\<close>

lemma title_by_id_absent:
  "cid \<notin> chat_id ` set cl \<Longrightarrow> title_by_id cl cid = UNKNOWN_CHAT"
  by (induction cl) auto

lemma set_title_absent:
  "cid \<notin> chat_id ` set cl \<Longrightarrow> set_title cl cid t = cl"
  by (induction cl) auto

lemma update_chat_title_result:
  "fst (update_chat_title env cid t w) =
     map_sum id (\<lambda>_. ()) (fst (db_update_chat_title env cid t (ext w)))"
  by (auto simp: update_chat_title_def call_eq Let_def split: sum.splits)

lemma update_chat_title_world:
  "chat_list (snd (update_chat_title env cid t w)) = set_title (chat_list w) cid t"
  "trace (snd (update_chat_title env cid t w)) = trace w @ [UpdateChatTitle cid t]"
  by (auto simp: update_chat_title_def call_eq Let_def split: sum.splits)

text \<open>
  C6, as stated, fails. The identifier \<open>c1\<close> is in neither the chat list nor the
  histories, and the store knows no chat and reports every write as failed (by its
  return value). The title lookup gives the title of an unknown chat, but neither
  \<^verbatim>\<open>add_message\<close> nor \<^verbatim>\<open>update_chat_title\<close> raises.
\<close>

theorem unknown_id_mutation_counterexample:
  "c1 \<notin> chat_id ` set (chat_list empty_world)
   \<and> all_chat_histories empty_world c1 = None
   \<and> get_chat_title_by_id empty_world c1 = UNKNOWN_CHAT
   \<and> fst (add_message (test_env [] (Inr []) (Inr False) (Inr []) (Inr []))
            c1 USER (ascii ''hello'') False None empty_world) = Inr ()
   \<and> fst (update_chat_title (test_env [] (Inr []) (Inr False) (Inr []) (Inr []))
            c1 (ascii ''Python'') empty_world) = Inr ()"
  by (simp add: empty_world_def get_chat_title_by_id_def add_message_result
        update_chat_title_result test_env_simps)

text \<open>
  C6, amended. For an identifier that is not in the chat list, the title lookup returns
  the title of an unknown chat. The mutating methods have no check of their own:
  \<^verbatim>\<open>add_message\<close> raises exactly when the store's write raises, and has created the
  history with the message in it if there was none; \<^verbatim>\<open>update_chat_title\<close> raises
  exactly when the store's update raises, leaves the chat list as it was and still sends
  the update to the store.
\<close>

theorem unknown_id_lookup_and_mutation:
  assumes "cid \<notin> chat_id ` set (chat_list w)"
  shows "get_chat_title_by_id w cid = UNKNOWN_CHAT
     \<and> fst (add_message env cid role content is_rag chunks w) =
         map_sum id (\<lambda>_. ())
           (fst (db_save_message env cid role content
                   (if role = ASSISTANT then Some is_rag else None) chunks (ext w)))
     \<and> (all_chat_histories w cid = None \<longrightarrow>
          all_chat_histories (snd (add_message env cid role content is_rag chunks w)) cid =
            Some [make_message role content is_rag chunks])
     \<and> fst (update_chat_title env cid t w) =
         map_sum id (\<lambda>_. ()) (fst (db_update_chat_title env cid t (ext w)))
     \<and> chat_list (snd (update_chat_title env cid t w)) = chat_list w
     \<and> trace (snd (update_chat_title env cid t w)) = trace w @ [UpdateChatTitle cid t]"
  using assms
  by (simp add: get_chat_title_by_id_def title_by_id_absent add_message_result
        add_message_histories update_chat_title_result update_chat_title_world set_title_absent)

theorem unknown_id_lookup_and_mutation_witness:
  "c1 \<notin> chat_id ` set (chat_list empty_world)
   \<and> get_chat_title_by_id empty_world c1 = UNKNOWN_CHAT
   \<and> fst (add_message (test_env [] (Inr []) (Inl (Raised (ascii ''Unavailable''))) (Inr []) (Inr []))
            c1 USER (ascii ''hello'') False None empty_world) = Inl (Raised (ascii ''Unavailable''))
   \<and> fst (update_chat_title (test_env [] (Inr []) (Inr True) (Inr []) (Inr []))
            c1 (ascii ''Python'') empty_world) = Inr ()
   \<and> chat_list (snd (update_chat_title (test_env [] (Inr []) (Inr True) (Inr []) (Inr []))
            c1 (ascii ''Python'') empty_world)) = []"
proof -
  have absent: "c1 \<notin> chat_id ` set (chat_list empty_world)" "chat_list empty_world = []"
    by (simp_all add: empty_world_def)
  show ?thesis
    using unknown_id_lookup_and_mutation [OF absent(1),
        of "test_env [] (Inr []) (Inl (Raised (ascii ''Unavailable''))) (Inr []) (Inr [])"
           USER "ascii ''hello''" False None]
      unknown_id_lookup_and_mutation [OF absent(1),
        of "test_env [] (Inr []) (Inr True) (Inr []) (Inr [])" _ _ _ _ "ascii ''Python''"]
      absent
    by (simp add: test_env_simps)
qed

section \<open>The current chat at the start of a session\<close>

lemma restore_fresh:
  "ss_chat_list (session w) = None \<Longrightarrow> db_get_all_chats env (ext w) = (Inr cl, e1) \<Longrightarrow>
     restore_from_session_state env w =
       (Inr (), w\<lparr>chat_list := cl, all_chat_histories := Map.empty,
                  session := (session w)\<lparr>ss_chat_list := Some cl,
                               ss_all_chat_histories := Some Map.empty\<rparr>,
                  ext := e1, trace := trace w @ [GetAllChats]\<rparr>)"
  by (simp add: restore_from_session_state_def load_chat_list_from_db_def call_eq)

text \<open>
  C10. At the first script run of a session (the session state holds neither a chat
  list nor a current chat), when the store returns the chat list \<open>cl\<close>: the manager's
  list is \<open>cl\<close> and no history is cached. If \<open>cl\<close> is empty, the current identifier is
  the one the identifier generator returns; it is in neither the chat list nor the
  histories, which are both still empty; its title, looked up and stored as the current
  title, is that of an unknown chat; the only calls made are the read of the list and
  the generator. If \<open>cl\<close> is not empty, the current identifier and title are those of
  its first entry.
\<close>

theorem startup_current_chat:
  assumes "ss_chat_list (session w) = None" and "ss_current_chat (session w) = None"
    and "db_get_all_chats env (ext w) = (Inr cl, e1)"
  shows "fst (startup env w) = Inr ()
     \<and> chat_list (snd (startup env w)) = cl
     \<and> all_chat_histories (snd (startup env w)) = Map.empty
     \<and> (cl = [] \<longrightarrow>
          current_chat_id (snd (startup env w)) = Inr (fst (shortuuid env e1))
          \<and> fst (shortuuid env e1) \<notin> chat_id ` set (chat_list (snd (startup env w)))
          \<and> all_chat_histories (snd (startup env w)) (fst (shortuuid env e1)) = None
          \<and> get_chat_title_by_id (snd (startup env w)) (fst (shortuuid env e1)) = UNKNOWN_CHAT
          \<and> current_chat_title (snd (startup env w)) = Inr UNKNOWN_CHAT
          \<and> trace (snd (startup env w)) = trace w @ [GetAllChats, Uuid])
     \<and> (cl \<noteq> [] \<longrightarrow>
          current_chat_id (snd (startup env w)) = Inr (chat_id (hd cl))
          \<and> current_chat_title (snd (startup env w)) = Inr (chat_title (hd cl))
          \<and> trace (snd (startup env w)) = trace w @ [GetAllChats])"
proof (cases cl)
  case Nil
  with assms show ?thesis
    by (simp add: startup_def restore_fresh initialize_session_state_def set_current_chat_def
          get_current_chat_id_def call_eq get_chat_title_by_id_def current_chat_id_def
          current_chat_title_def Let_def split: prod.splits)
next
  case (Cons c cs)
  with assms show ?thesis
    by (simp add: startup_def restore_fresh initialize_session_state_def set_current_chat_def
          get_current_chat_id_def call_eq get_chat_title_by_id_def current_chat_id_def
          current_chat_title_def Let_def split: prod.splits)
qed

theorem startup_current_chat_witness:
  "current_chat_id (snd (startup (test_env [] (Inr []) (Inr True) (Inr []) (Inr [])) empty_world))
     = Inr (ascii ''local1'')
   \<and> chat_list (snd (startup (test_env [] (Inr []) (Inr True) (Inr []) (Inr [])) empty_world)) = []
   \<and> current_chat_title
       (snd (startup (test_env [] (Inr []) (Inr True) (Inr []) (Inr [])) empty_world))
     = Inr UNKNOWN_CHAT
   \<and> current_chat_id
       (snd (startup (test_env [\<lparr>chat_id = c1, chat_title = NEW_CHAT\<rparr>,
                                 \<lparr>chat_id = ascii ''c0'', chat_title = ascii ''Python''\<rparr>]
                        (Inr []) (Inr True) (Inr []) (Inr [])) empty_world))
     = Inr c1"
proof -
  let ?E = "test_env [] (Inr []) (Inr True) (Inr []) (Inr [])"
  let ?cl = "[\<lparr>chat_id = c1, chat_title = NEW_CHAT\<rparr>,
              \<lparr>chat_id = ascii ''c0'', chat_title = ascii ''Python''\<rparr>]"
  let ?E' = "test_env ?cl (Inr []) (Inr True) (Inr []) (Inr [])"
  have fresh: "ss_chat_list (session empty_world) = None"
    "ss_current_chat (session empty_world) = None"
    by (simp_all add: empty_world_def)
  have none: "db_get_all_chats ?E (ext empty_world) = (Inr [], Suc 0)"
    and some: "db_get_all_chats ?E' (ext empty_world) = (Inr ?cl, Suc 0)"
    by (simp_all add: test_env_simps empty_world_def)
  have uuid: "fst (shortuuid ?E (Suc 0)) = ascii ''local1''"
    by (simp add: test_env_simps ascii_def str_nat.simps)
  from startup_current_chat [OF fresh none] startup_current_chat [OF fresh some] uuid
  show ?thesis
    by simp
qed

end
